theory Spec2Isabelle
  imports Main "HOL-Library.Sublist"
begin

section \<open>Go library functions used by the program\<close>

text \<open>
  Go strings are byte sequences, so they are modelled as \<open>string\<close> (a list of 8-bit
  characters). The functions of package \<open>strings\<close> that \<open>rewriteEndpoint\<close> calls are
  written out for the arguments the program passes: the separator of \<open>Split\<close> and
  \<open>Join\<close> and the needle of \<open>Count\<close>, \<open>Contains\<close> and \<open>LastIndex\<close> are single bytes,
  the cut sets of \<open>TrimLeft\<close> are ASCII.
\<close>

definition nl :: char where
  "nl = CHR 0x0A"

definition tab :: char where
  "tab = CHR 0x09"

text \<open>\<open>strings.Split(s, sep)\<close>: the pieces between separators; one piece for a string
  without separator, also for the empty string.\<close>

fun strings_Split :: "string \<Rightarrow> char \<Rightarrow> string list" where
  "strings_Split [] sep = [[]]"
| "strings_Split (c # cs) sep =
     (if c = sep then [] # strings_Split cs sep
      else (case strings_Split cs sep of
              [] \<Rightarrow> [[c]]
            | piece # pieces \<Rightarrow> (c # piece) # pieces))"

text \<open>\<open>strings.Join(elems, sep)\<close>.\<close>

fun strings_Join :: "string list \<Rightarrow> char \<Rightarrow> string" where
  "strings_Join [] sep = []"
| "strings_Join [x] sep = x"
| "strings_Join (x # y # ys) sep = x @ sep # strings_Join (y # ys) sep"

text \<open>
  \<open>strings.TrimSpace\<close> removes leading and trailing white space as defined by Unicode:
  it decodes UTF-8 and drops the runes for which \<open>unicode.IsSpace\<close> holds. Those runes
  are U+0009..U+000D, U+0020 (one byte each), U+0085, U+00A0 (two bytes), U+1680,
  U+2000..U+200A, U+2028, U+2029, U+202F, U+205F and U+3000 (three bytes). An invalid
  or over-long byte sequence decodes to the error rune, which is not a space.
\<close>

definition isSpace1 :: "char \<Rightarrow> bool" where
  "isSpace1 a = (a = CHR 0x09 \<or> a = CHR 0x0A \<or> a = CHR 0x0B \<or> a = CHR 0x0C
     \<or> a = CHR 0x0D \<or> a = CHR 0x20)"

definition isSpace2 :: "char \<Rightarrow> char \<Rightarrow> bool" where
  "isSpace2 a b = (a = CHR 0xC2 \<and> (b = CHR 0x85 \<or> b = CHR 0xA0))"

definition isSpace3 :: "char \<Rightarrow> char \<Rightarrow> char \<Rightarrow> bool" where
  "isSpace3 a b c =
     ((a = CHR 0xE1 \<and> b = CHR 0x9A \<and> c = CHR 0x80)
      \<or> (a = CHR 0xE2 \<and> b = CHR 0x80 \<and>
           (c = CHR 0x80 \<or> c = CHR 0x81 \<or> c = CHR 0x82 \<or> c = CHR 0x83 \<or> c = CHR 0x84
            \<or> c = CHR 0x85 \<or> c = CHR 0x86 \<or> c = CHR 0x87 \<or> c = CHR 0x88 \<or> c = CHR 0x89
            \<or> c = CHR 0x8A \<or> c = CHR 0xA8 \<or> c = CHR 0xA9 \<or> c = CHR 0xAF))
      \<or> (a = CHR 0xE2 \<and> b = CHR 0x81 \<and> c = CHR 0x9F)
      \<or> (a = CHR 0xE3 \<and> b = CHR 0x80 \<and> c = CHR 0x80))"

text \<open>\<open>strings.TrimLeftFunc(s, unicode.IsSpace)\<close>: drop space runes from the front.\<close>

fun trimLeftSpace :: "string \<Rightarrow> string" where
  "trimLeftSpace (a # b # c # s) =
     (if isSpace1 a then trimLeftSpace (b # c # s)
      else if isSpace2 a b then trimLeftSpace (c # s)
      else if isSpace3 a b c then trimLeftSpace s
      else a # b # c # s)"
| "trimLeftSpace [a, b] =
     (if isSpace1 a then trimLeftSpace [b]
      else if isSpace2 a b then []
      else [a, b])"
| "trimLeftSpace [a] = (if isSpace1 a then [] else [a])"
| "trimLeftSpace [] = []"

text \<open>
  \<open>strings.TrimRightFunc(s, unicode.IsSpace)\<close>: drop space runes from the end. The
  argument of \<open>trimRightSpaceRev\<close> is the reversed string, so \<open>c\<close> is the last byte,
  \<open>b\<close> the one before it.
\<close>

fun trimRightSpaceRev :: "string \<Rightarrow> string" where
  "trimRightSpaceRev (c # b # a # s) =
     (if isSpace1 c then trimRightSpaceRev (b # a # s)
      else if isSpace2 b c then trimRightSpaceRev (a # s)
      else if isSpace3 a b c then trimRightSpaceRev s
      else c # b # a # s)"
| "trimRightSpaceRev [c, b] =
     (if isSpace1 c then trimRightSpaceRev [b]
      else if isSpace2 b c then []
      else [c, b])"
| "trimRightSpaceRev [c] = (if isSpace1 c then [] else [c])"
| "trimRightSpaceRev [] = []"

definition strings_TrimSpace :: "string \<Rightarrow> string" where
  "strings_TrimSpace s = rev (trimRightSpaceRev (rev (trimLeftSpace s)))"

text \<open>\<open>strings.TrimLeft(s, cutset)\<close> for an ASCII cut set.\<close>

definition strings_TrimLeft :: "string \<Rightarrow> string \<Rightarrow> string" where
  "strings_TrimLeft s cutset = dropWhile (\<lambda>c. c \<in> set cutset) s"

definition strings_HasPrefix :: "string \<Rightarrow> string \<Rightarrow> bool" where
  "strings_HasPrefix s p = (take (length p) s = p)"

definition strings_TrimPrefix :: "string \<Rightarrow> string \<Rightarrow> string" where
  "strings_TrimPrefix s p = (if strings_HasPrefix s p then drop (length p) s else s)"

definition strings_Count :: "string \<Rightarrow> char \<Rightarrow> nat" where
  "strings_Count s c = length (filter (\<lambda>x. x = c) s)"

definition strings_Contains :: "string \<Rightarrow> char \<Rightarrow> bool" where
  "strings_Contains s c = (c \<in> set s)"

text \<open>\<open>strings.LastIndex(s, c)\<close>: the index of the last \<open>c\<close>, or \<open>-1\<close>.\<close>

definition strings_LastIndex :: "string \<Rightarrow> char \<Rightarrow> int" where
  "strings_LastIndex s c =
     (if c \<in> set s then int (length s) - 1 - int (length (takeWhile (\<lambda>x. x \<noteq> c) (rev s)))
      else - 1)"

section \<open>Endpoint normalisation: \<open>rewriteEndpoint\<close>\<close>

text \<open>
  The function is the same, line for line, in \<open>cmd/bootstrap-http/main.go\<close> and in
  \<open>internal/bootstrap/server.go\<close>. \<open>isEndpointLine\<close> is the test that lets the loop
  \<open>continue\<close>; \<open>rewriteLine\<close> is the loop body for a line that passed it: \<open>Some\<close> of
  the new line when the body assigns \<open>lines[i]\<close>, \<open>None\<close> when it returns \<open>conf\<close>.
\<close>

definition isEndpointLine :: "string \<Rightarrow> bool" where
  "isEndpointLine line =
     (let trimmed = strings_TrimSpace line
      in strings_HasPrefix trimmed ''Endpoint '' \<or> strings_HasPrefix trimmed ''Endpoint='')"

definition lineIndent :: "string \<Rightarrow> string" where
  "lineIndent line =
     (let indentLen = length line - length (strings_TrimLeft line [CHR '' '', tab])
      in take indentLen line)"

definition lineCurrent :: "string \<Rightarrow> string" where
  "lineCurrent line =
     (let trimmed = strings_TrimSpace line;
          rest = strings_TrimSpace (strings_TrimPrefix trimmed ''Endpoint'');
          rest = strings_TrimLeft rest '' =''
      in rest)"

definition rewriteLine :: "string \<Rightarrow> string \<Rightarrow> string \<Rightarrow> string option" where
  "rewriteLine line appName port =
     (let indent = lineIndent line;
          current = lineCurrent line
      in if appName \<noteq> [] \<and> port \<noteq> []
         then Some (indent @ ''Endpoint = '' @ appName @ ''.fly.dev:'' @ port)
         else if 1 < strings_Count current CHR '':'' \<and> \<not> strings_Contains current CHR '']''
         then (let lastColon = strings_LastIndex current CHR '':''
               in if 0 < lastColon \<and> lastColon < int (length current) - 1
                  then (let host = take (nat lastColon) current;
                            p = drop (nat (lastColon + 1)) current
                        in if p \<noteq> []
                           then Some (indent @ ''Endpoint = ['' @ host @ '']:'' @ p)
                           else None)
                  else None)
         else None)"

text \<open>The \<open>for i, line := range lines\<close> loop; \<open>todo\<close> is \<open>lines[i:]\<close>.\<close>

fun rewriteLoop :: "string \<Rightarrow> string list \<Rightarrow> string \<Rightarrow> string \<Rightarrow> nat \<Rightarrow> string list \<Rightarrow> string" where
  "rewriteLoop conf lines appName port i [] = conf"
| "rewriteLoop conf lines appName port i (line # todo) =
     (if \<not> isEndpointLine line then rewriteLoop conf lines appName port (Suc i) todo
      else (case rewriteLine line appName port of
              Some new \<Rightarrow> strings_Join (lines[i := new]) nl
            | None \<Rightarrow> conf))"

definition rewriteEndpoint :: "string \<Rightarrow> string \<Rightarrow> string \<Rightarrow> string" where
  "rewriteEndpoint conf appName port =
     (let lines = strings_Split conf nl
      in rewriteLoop conf lines appName port 0 lines)"

section \<open>The bootstrap endpoint\<close>

text \<open>
  \<open>config.Config\<close> of \<open>internal/config/config.go\<close>. The handler in
  \<open>cmd/bootstrap-http/main.go\<close> keeps the same values in the local variables
  \<open>bootstrapToken\<close>, \<open>endpointHost\<close> and \<open>endpointPort\<close>.
\<close>

record Config =
  Port :: string
  BootstrapToken :: string
  PeerName :: string
  ConfigDir :: string
  WGInterface :: string
  EndpointHost :: string
  EndpointPort :: string

text \<open>
  The two files the handlers touch. \<open>done_marker\<close> is \<open>Some\<close> of the file's content
  exactly when \<open>os.Stat\<close> of the marker path returns no error; \<open>peer_conf\<close> is \<open>Some\<close>
  of the text exactly when \<open>os.ReadFile\<close> of the peer configuration succeeds.
\<close>

record files =
  done_marker :: "string option"
  peer_conf :: "string option"

text \<open>
  How \<open>os.WriteFile\<close> of the marker ends: the file is written; or the call fails
  before the file exists (the open fails); or it fails after the file was created.
\<close>

datatype write_outcome = Written | NotCreated | CreatedThenFailed

fun WriteFile :: "files \<Rightarrow> string \<Rightarrow> write_outcome \<Rightarrow> files" where
  "WriteFile fs content Written = fs\<lparr>done_marker := Some content\<rparr>"
| "WriteFile fs content NotCreated = fs"
| "WriteFile fs content CreatedThenFailed = fs\<lparr>done_marker := Some []\<rparr>"

text \<open>
  What one request brings: the value of \<open>r.URL.Query().Get("token")\<close> (empty when the
  parameter is absent), the formatted time of the request, and how the marker write
  would end.
\<close>

record request =
  req_token :: string
  req_now :: string
  req_write :: write_outcome

text \<open>
  The external collaborators: \<open>qrcode.Encode\<close> returns the image bytes and whether it
  failed, \<open>base64\<close> is \<open>base64.StdEncoding.EncodeToString\<close>, \<open>page\<close> is what executing the
  page template writes for a configuration text and an encoded image.
\<close>

record collab =
  qr_encode :: "string \<Rightarrow> string \<times> bool"
  base64 :: "string \<Rightarrow> string"
  page :: "string \<Rightarrow> string \<Rightarrow> string"

record response =
  resp_status :: nat
  resp_body :: string

text \<open>The calls a handler makes to the outside, in order.\<close>

datatype event = StatDone | QueryToken | ReadConf | EncodeQR | WriteDone | RenderPage

text \<open>\<open>http.Error(w, msg, code)\<close> writes the message and a newline.\<close>

definition http_Error :: "string \<Rightarrow> nat \<Rightarrow> response" where
  "http_Error msg code = \<lparr>resp_status = code, resp_body = msg @ [nl]\<rparr>"

text \<open>The \<open>/bootstrap\<close> handler of \<open>cmd/bootstrap-http/main.go\<close>.\<close>

definition main_bootstrap ::
  "collab \<Rightarrow> Config \<Rightarrow> files \<Rightarrow> request \<Rightarrow> response \<times> files \<times> event list" where
  "main_bootstrap co cfg fs rq =
     (if done_marker fs \<noteq> None
      then (http_Error ''bootstrap already completed'' 410, fs, [StatDone])
      else if BootstrapToken cfg \<noteq> [] \<and> req_token rq = []
      then (http_Error ''missing token'' 401, fs, [StatDone, QueryToken])
      else if BootstrapToken cfg \<noteq> [] \<and> req_token rq \<noteq> BootstrapToken cfg
      then (http_Error ''invalid token'' 403, fs, [StatDone, QueryToken])
      else (let asked = StatDone # (if BootstrapToken cfg \<noteq> [] then [QueryToken] else [])
            in case peer_conf fs of
                 None \<Rightarrow> (http_Error ''config not ready'' 503, fs, asked @ [ReadConf])
               | Some confBytes \<Rightarrow>
                   (let confStr = rewriteEndpoint confBytes (EndpointHost cfg) (EndpointPort cfg);
                        (qrPNG, err) = qr_encode co confStr
                    in if err
                       then (http_Error ''failed to generate qr'' 500, fs,
                             asked @ [ReadConf, EncodeQR])
                       else (let qrBase64 = base64 co qrPNG
                             in if req_write rq \<noteq> Written
                                then (http_Error ''failed to finalize bootstrap'' 500,
                                      WriteFile fs (req_now rq) (req_write rq),
                                      asked @ [ReadConf, EncodeQR, WriteDone])
                                else (\<lparr>resp_status = 200, resp_body = page co confStr qrBase64\<rparr>,
                                      WriteFile fs (req_now rq) (req_write rq),
                                      asked @ [ReadConf, EncodeQR, WriteDone, RenderPage])))))"

text \<open>
  \<open>Server.bootstrap\<close> of \<open>internal/bootstrap/server.go\<close>. The error of
  \<open>qrcode.Encode\<close> and the error of \<open>os.WriteFile\<close> are assigned to \<open>_\<close>; nothing sets a
  status before the template is executed, so the response has status 200.
\<close>

definition Server_bootstrap ::
  "collab \<Rightarrow> Config \<Rightarrow> files \<Rightarrow> request \<Rightarrow> response \<times> files \<times> event list" where
  "Server_bootstrap co cfg fs rq =
     (if done_marker fs \<noteq> None
      then (http_Error ''bootstrap already completed'' 410, fs, [StatDone])
      else if BootstrapToken cfg \<noteq> [] \<and> req_token rq \<noteq> BootstrapToken cfg
      then (http_Error ''unauthorized'' 401, fs, [StatDone, QueryToken])
      else (let asked = StatDone # (if BootstrapToken cfg \<noteq> [] then [QueryToken] else [])
            in case peer_conf fs of
                 None \<Rightarrow> (http_Error ''config not ready'' 503, fs, asked @ [ReadConf])
               | Some confBytes \<Rightarrow>
                   (let confStr = rewriteEndpoint confBytes (EndpointHost cfg) (EndpointPort cfg);
                        (qrPNG, err) = qr_encode co confStr;
                        qrBase64 = base64 co qrPNG
                    in (\<lparr>resp_status = 200, resp_body = page co confStr qrBase64\<rparr>,
                        WriteFile fs (req_now rq) (req_write rq),
                        asked @ [ReadConf, EncodeQR, WriteDone, RenderPage]))))"

section \<open>The keepalive loop\<close>

text \<open>
  \<open>time.Duration\<close> counts nanoseconds in 64 bits. The loop only compares durations,
  so they are integers here, and every 64-bit value is one of them.
\<close>

definition startupWindow :: int where
  "startupWindow = 2 * 60 * 1000000000"

definition maxIdle :: int where
  "maxIdle = 5 * 60 * 1000000000"

definition interval :: int where
  "interval = 30 * 1000000000"

text \<open>The local variables that live across iterations of \<open>keepaliveLoop\<close>.\<close>

record tracker =
  connected :: bool
  connectedSince :: int
  lastIdle :: int

definition initialTracker :: tracker where
  "initialTracker = \<lparr>connected = False, connectedSince = 0, lastIdle = - 1\<rparr>"

text \<open>The three results of \<open>getWireGuardIdleDuration\<close>; \<open>pollErr\<close> is \<open>err != nil\<close>.\<close>

record poll_result =
  idle :: int
  noHandshake :: bool
  pollErr :: bool

text \<open>
  What the outside answers during one iteration: \<open>time.Since(start)\<close> after the sleep,
  the poll (read only after the startup window), \<open>time.Now()\<close>, and whether
  \<open>client.Get\<close> fails.
\<close>

record tick_input =
  sinceStart :: int
  poll :: poll_result
  tickNow :: int
  pingFails :: bool

datatype klog =
    LogStartupTick | LogPollError | LogNeverHandshakeEndSession | LogNeverHandshakeStop
  | LogHandshakeDetected | LogIdleEndSession | LogIdleStop | LogSessionStart
  | LogSessionContinue | LogPingFailed

datatype kevent = PollWG | Ping | Log klog

text \<open>The end of the loop body: \<open>client.Get(url)\<close>, then the next iteration.\<close>

definition sendPing :: "tracker \<Rightarrow> tick_input \<Rightarrow> kevent list \<Rightarrow> tracker option \<times> kevent list" where
  "sendPing st ti evs =
     (Some st, evs @ [Ping] @ (if pingFails ti then [Log LogPingFailed] else []))"

text \<open>One iteration of the loop; \<open>None\<close> is the \<open>return\<close> that ends it.\<close>

definition keepaliveTick :: "tracker \<Rightarrow> tick_input \<Rightarrow> tracker option \<times> kevent list" where
  "keepaliveTick st ti =
     (if sinceStart ti \<le> startupWindow then sendPing st ti [Log LogStartupTick]
      else if pollErr (poll ti) then sendPing st ti [PollWG, Log LogPollError]
      else if noHandshake (poll ti)
      then (None, [PollWG, Log (if connected st then LogNeverHandshakeEndSession
                                else LogNeverHandshakeStop)])
      else (let detected = (if 0 \<le> lastIdle st \<and> idle (poll ti) < lastIdle st
                            then [Log LogHandshakeDetected] else []);
                st1 = st\<lparr>lastIdle := idle (poll ti)\<rparr>
            in if maxIdle < idle (poll ti)
               then (None, PollWG # detected
                       @ [Log (if connected st1 then LogIdleEndSession else LogIdleStop)])
               else if \<not> connected st1
               then sendPing (st1\<lparr>connected := True, connectedSince := tickNow ti\<rparr>) ti
                      (PollWG # detected @ [Log LogSessionStart])
               else sendPing st1 ti (PollWG # detected @ [Log LogSessionContinue])))"

text \<open>The loop over the answers of the first iterations.\<close>

fun keepaliveLoop :: "tracker \<Rightarrow> tick_input list \<Rightarrow> tracker option \<times> kevent list" where
  "keepaliveLoop st [] = (Some st, [])"
| "keepaliveLoop st (ti # tis) =
     (case keepaliveTick st ti of
        (None, evs) \<Rightarrow> (None, evs)
      | (Some st', evs) \<Rightarrow>
          (case keepaliveLoop st' tis of (r, evs') \<Rightarrow> (r, evs @ evs')))"

text \<open>
  The condition under which an iteration reaches one of the two \<open>return\<close> statements:
  past the startup window, the poll succeeded, and either no handshake was ever seen or
  the idle time is over \<open>maxIdle\<close>.
\<close>

definition stopCondition :: "tick_input \<Rightarrow> bool" where
  "stopCondition ti =
     (startupWindow < sinceStart ti \<and> \<not> pollErr (poll ti)
      \<and> (noHandshake (poll ti) \<or> maxIdle < idle (poll ti)))"

section \<open>Concrete inputs\<close>

definition sampleConfig :: Config where
  "sampleConfig =
     \<lparr>Port = ''8081'', BootstrapToken = ''s3cret'', PeerName = ''peer1'',
      ConfigDir = ''/config'', WGInterface = ''wg0'', EndpointHost = ''myvpn'',
      EndpointPort = ''51820''\<rparr>"

definition sampleCollab :: collab where
  "sampleCollab =
     \<lparr>qr_encode = (\<lambda>s. (''PNG:'' @ s, False)), base64 = (\<lambda>s. ''b64:'' @ s),
      page = (\<lambda>c q. q @ ''|'' @ c)\<rparr>"

text \<open>An encoder that rejects its input, as \<open>qrcode.Encode\<close> does for a text too long
  for a QR code: no bytes, and an error.\<close>

definition failingQR :: collab where
  "failingQR = sampleCollab\<lparr>qr_encode := (\<lambda>s. ([], True))\<rparr>"

definition pendingFiles :: files where
  "pendingFiles = \<lparr>done_marker = None, peer_conf = Some ''Endpoint = 1.2.3.4:51820''\<rparr>"

definition completedFiles :: files where
  "completedFiles = pendingFiles\<lparr>done_marker := Some ''2026-01-01T00:00:00Z''\<rparr>"

definition noConfFiles :: files where
  "noConfFiles = \<lparr>done_marker = None, peer_conf = None\<rparr>"

definition goodRequest :: request where
  "goodRequest =
     \<lparr>req_token = ''s3cret'', req_now = ''2026-01-02T00:00:00Z'', req_write = Written\<rparr>"

definition wrongTokenRequest :: request where
  "wrongTokenRequest = goodRequest\<lparr>req_token := ''guess''\<rparr>"

definition failedWriteRequest :: request where
  "failedWriteRequest = goodRequest\<lparr>req_write := NotCreated\<rparr>"

text \<open>An iteration three minutes after the start whose poll reports six idle minutes,
  and one whose poll fails.\<close>

definition idleTick :: tick_input where
  "idleTick =
     \<lparr>sinceStart = 180000000000,
      poll = \<lparr>idle = 360000000000, noHandshake = False, pollErr = False\<rparr>,
      tickNow = 1000, pingFails = False\<rparr>"

definition pollErrorTick :: tick_input where
  "pollErrorTick =
     \<lparr>sinceStart = 180000000000,
      poll = \<lparr>idle = 0, noHandshake = False, pollErr = True\<rparr>,
      tickNow = 1000, pingFails = True\<rparr>"

definition connectedTracker :: tracker where
  "connectedTracker = \<lparr>connected = True, connectedSince = 500, lastIdle = 20000000000\<rparr>"

section \<open>The one-time gate\<close>

text \<open>
  Claim C1. Once the done marker exists, every request to the bootstrap path gets the
  terminal response 410 "bootstrap already completed", whatever token it carries, and
  the handler has done nothing but look for the marker: the token is not read, the
  configuration is not read, nothing is encoded and nothing is written. This holds for
  the handler of \<open>main.go\<close> and for \<open>Server.bootstrap\<close>.
\<close>

theorem bootstrap_done_is_terminal:
  assumes "done_marker fs \<noteq> None"
  shows "main_bootstrap co cfg fs rq
           = (http_Error ''bootstrap already completed'' 410, fs, [StatDone])
       \<and> Server_bootstrap co cfg fs rq
           = (http_Error ''bootstrap already completed'' 410, fs, [StatDone])
       \<and> resp_status (http_Error ''bootstrap already completed'' 410) = 410"
  using assms by (simp add: main_bootstrap_def Server_bootstrap_def http_Error_def)

theorem bootstrap_done_is_terminal_witness:
  "done_marker completedFiles \<noteq> None
   \<and> main_bootstrap sampleCollab sampleConfig completedFiles goodRequest
       = (http_Error ''bootstrap already completed'' 410, completedFiles, [StatDone])
   \<and> Server_bootstrap sampleCollab sampleConfig completedFiles wrongTokenRequest
       = (http_Error ''bootstrap already completed'' 410, completedFiles, [StatDone])"
proof -
  have h: "done_marker completedFiles \<noteq> None"
    by (simp add: completedFiles_def pendingFiles_def)
  from bootstrap_done_is_terminal [OF h, of sampleCollab sampleConfig goodRequest]
    bootstrap_done_is_terminal [OF h, of sampleCollab sampleConfig wrongTokenRequest] h
  show ?thesis by simp
qed

text \<open>A request that the handler of \<open>main.go\<close> answers with 200 has written the marker,
  so the next request meets the case above.\<close>

lemma main_bootstrap_success_completes:
  assumes "resp_status (fst (main_bootstrap co cfg fs rq)) = 200"
  shows "done_marker (fst (snd (main_bootstrap co cfg fs rq))) \<noteq> None"
  using assms
  by (auto simp add: main_bootstrap_def http_Error_def Let_def
      split: if_splits option.splits prod.splits)

section \<open>Token check\<close>

text \<open>The handler of \<open>main.go\<close> tells a missing token (401) from a wrong one (403).\<close>

lemma main_bootstrap_token_status:
  assumes "BootstrapToken cfg \<noteq> []" and "done_marker fs = None"
  shows "(req_token rq = [] \<longrightarrow> resp_status (fst (main_bootstrap co cfg fs rq)) = 401)
       \<and> (req_token rq \<noteq> [] \<and> req_token rq \<noteq> BootstrapToken cfg
            \<longrightarrow> resp_status (fst (main_bootstrap co cfg fs rq)) = 403)"
  using assms by (simp add: main_bootstrap_def http_Error_def)

text \<open>\<open>Server.bootstrap\<close> has one comparison and one status for both.\<close>

lemma Server_bootstrap_token_status:
  assumes "BootstrapToken cfg \<noteq> []" and "done_marker fs = None"
    and "req_token rq \<noteq> BootstrapToken cfg"
  shows "Server_bootstrap co cfg fs rq
           = (http_Error ''unauthorized'' 401, fs, [StatDone, QueryToken])"
  using assms by (simp add: Server_bootstrap_def)

text \<open>
  Claim C2. With a token configured and the marker absent, a request without a token
  is to fail with 401 and a request with a different token with 403. At the request
  below, whose token \<open>guess\<close> is present and differs from the configured \<open>s3cret\<close>,
  \<open>Server.bootstrap\<close> answers 401 "unauthorized"; the handler of \<open>main.go\<close> answers 403.
\<close>

theorem Server_bootstrap_wrong_token_is_401:
  "Server_bootstrap sampleCollab sampleConfig pendingFiles wrongTokenRequest
     = (\<lparr>resp_status = 401, resp_body = ''unauthorized'' @ [nl]\<rparr>, pendingFiles,
        [StatDone, QueryToken])
   \<and> resp_status (fst (main_bootstrap sampleCollab sampleConfig pendingFiles wrongTokenRequest))
       = 403"
  by (simp add: Server_bootstrap_def main_bootstrap_def http_Error_def sampleConfig_def
      pendingFiles_def wrongTokenRequest_def goodRequest_def)

section \<open>Failures after the token check\<close>

text \<open>
  Claim C6. A request in which the read of the peer configuration fails is answered
  with 503, and the marker is not written: the files are as before and the handler made
  no write call. Both handlers.
\<close>

theorem failed_config_load_is_503:
  assumes "peer_conf fs = None"
  shows "(ReadConf \<in> set (snd (snd (main_bootstrap co cfg fs rq)))
            \<longrightarrow> resp_status (fst (main_bootstrap co cfg fs rq)) = 503)
       \<and> fst (snd (main_bootstrap co cfg fs rq)) = fs
       \<and> WriteDone \<notin> set (snd (snd (main_bootstrap co cfg fs rq)))
       \<and> (ReadConf \<in> set (snd (snd (Server_bootstrap co cfg fs rq)))
            \<longrightarrow> resp_status (fst (Server_bootstrap co cfg fs rq)) = 503)
       \<and> fst (snd (Server_bootstrap co cfg fs rq)) = fs
       \<and> WriteDone \<notin> set (snd (snd (Server_bootstrap co cfg fs rq)))"
  using assms by (simp add: main_bootstrap_def Server_bootstrap_def http_Error_def Let_def)

theorem failed_config_load_is_503_witness:
  "peer_conf noConfFiles = None
   \<and> ReadConf \<in> set (snd (snd (main_bootstrap sampleCollab sampleConfig noConfFiles goodRequest)))
   \<and> resp_status (fst (main_bootstrap sampleCollab sampleConfig noConfFiles goodRequest)) = 503
   \<and> fst (snd (main_bootstrap sampleCollab sampleConfig noConfFiles goodRequest)) = noConfFiles
   \<and> ReadConf \<in> set (snd (snd (Server_bootstrap sampleCollab sampleConfig noConfFiles goodRequest)))
   \<and> resp_status (fst (Server_bootstrap sampleCollab sampleConfig noConfFiles goodRequest)) = 503
   \<and> fst (snd (Server_bootstrap sampleCollab sampleConfig noConfFiles goodRequest)) = noConfFiles
   \<and> done_marker noConfFiles = None"
proof -
  have h: "peer_conf noConfFiles = None"
    by (simp add: noConfFiles_def)
  have m: "ReadConf \<in> set (snd (snd (main_bootstrap sampleCollab sampleConfig noConfFiles goodRequest)))"
    by (simp add: main_bootstrap_def noConfFiles_def sampleConfig_def goodRequest_def)
  have s: "ReadConf \<in> set (snd (snd (Server_bootstrap sampleCollab sampleConfig noConfFiles goodRequest)))"
    by (simp add: Server_bootstrap_def noConfFiles_def sampleConfig_def goodRequest_def)
  have d: "done_marker noConfFiles = None"
    by (simp add: noConfFiles_def)
  from failed_config_load_is_503 [OF h, of sampleCollab sampleConfig goodRequest] h m s d
  show ?thesis by blast
qed

text \<open>
  Claim C7. With a token configured and the marker absent, a request whose token is
  missing or wrong never reaches the read of the peer configuration: the trace of
  either handler has no \<open>ReadConf\<close>, and the files are untouched.
\<close>

theorem bad_token_never_reads_config:
  assumes "BootstrapToken cfg \<noteq> []" and "done_marker fs = None"
    and "req_token rq = [] \<or> req_token rq \<noteq> BootstrapToken cfg"
  shows "ReadConf \<notin> set (snd (snd (main_bootstrap co cfg fs rq)))
       \<and> ReadConf \<notin> set (snd (snd (Server_bootstrap co cfg fs rq)))
       \<and> fst (snd (main_bootstrap co cfg fs rq)) = fs
       \<and> fst (snd (Server_bootstrap co cfg fs rq)) = fs"
  using assms by (auto simp add: main_bootstrap_def Server_bootstrap_def)

theorem bad_token_never_reads_config_witness:
  "BootstrapToken sampleConfig \<noteq> [] \<and> done_marker pendingFiles = None
   \<and> req_token wrongTokenRequest \<noteq> BootstrapToken sampleConfig
   \<and> ReadConf \<notin> set (snd (snd (main_bootstrap sampleCollab sampleConfig pendingFiles wrongTokenRequest)))
   \<and> ReadConf \<notin> set (snd (snd (Server_bootstrap sampleCollab sampleConfig pendingFiles wrongTokenRequest)))"
proof -
  have h: "BootstrapToken sampleConfig \<noteq> []" "done_marker pendingFiles = None"
    "req_token wrongTokenRequest \<noteq> BootstrapToken sampleConfig"
    by (simp_all add: sampleConfig_def pendingFiles_def wrongTokenRequest_def goodRequest_def)
  from h(3) have "req_token wrongTokenRequest = []
      \<or> req_token wrongTokenRequest \<noteq> BootstrapToken sampleConfig" ..
  from bad_token_never_reads_config [OF h(1) h(2) this, of sampleCollab] h
  show ?thesis by blast
qed

text \<open>The handler of \<open>main.go\<close> stops at a failed encoding: 500, nothing written.\<close>

lemma main_bootstrap_failed_qr:
  assumes "done_marker fs = None" and "peer_conf fs = Some c"
    and "BootstrapToken cfg = [] \<or> req_token rq = BootstrapToken cfg"
    and "snd (qr_encode co (rewriteEndpoint c (EndpointHost cfg) (EndpointPort cfg)))"
  shows "resp_status (fst (main_bootstrap co cfg fs rq)) = 500
       \<and> fst (snd (main_bootstrap co cfg fs rq)) = fs
       \<and> WriteDone \<notin> set (snd (snd (main_bootstrap co cfg fs rq)))"
  using assms
  by (auto simp add: main_bootstrap_def http_Error_def Let_def split: prod.splits)

text \<open>\<open>Server.bootstrap\<close> drops the encoder's error and goes on.\<close>

lemma Server_bootstrap_failed_qr:
  assumes "done_marker fs = None" and "peer_conf fs = Some c"
    and "BootstrapToken cfg = [] \<or> req_token rq = BootstrapToken cfg"
  shows "resp_status (fst (Server_bootstrap co cfg fs rq)) = 200
       \<and> fst (snd (Server_bootstrap co cfg fs rq)) = WriteFile fs (req_now rq) (req_write rq)
       \<and> WriteDone \<in> set (snd (snd (Server_bootstrap co cfg fs rq)))"
  using assms
  by (auto simp add: Server_bootstrap_def Let_def split: prod.splits)

text \<open>
  Claim C3. A request in which the QR encoding fails is to be answered with 500 and
  must leave the marker unwritten. At the request below the encoder fails;
  \<open>Server.bootstrap\<close> answers 200 and writes the marker, so the state is Completed.
  The handler of \<open>main.go\<close> answers 500 and leaves the files as they were.
\<close>

theorem Server_bootstrap_failed_qr_completes:
  "snd (qr_encode failingQR (rewriteEndpoint ''Endpoint = 1.2.3.4:51820'' ''myvpn'' ''51820''))
   \<and> resp_status (fst (Server_bootstrap failingQR sampleConfig pendingFiles goodRequest)) = 200
   \<and> done_marker (fst (snd (Server_bootstrap failingQR sampleConfig pendingFiles goodRequest)))
       = Some ''2026-01-02T00:00:00Z''
   \<and> WriteDone \<in> set (snd (snd (Server_bootstrap failingQR sampleConfig pendingFiles goodRequest)))
   \<and> resp_status (fst (main_bootstrap failingQR sampleConfig pendingFiles goodRequest)) = 500
   \<and> fst (snd (main_bootstrap failingQR sampleConfig pendingFiles goodRequest)) = pendingFiles"
  by (simp add: Server_bootstrap_def main_bootstrap_def http_Error_def Let_def
      failingQR_def sampleCollab_def sampleConfig_def pendingFiles_def goodRequest_def)

text \<open>
  Claim C10. In \<open>Server.bootstrap\<close> a failed write of the marker is ignored: the page
  is rendered and the status is 200. When the failed write left no file, the files are
  as before, the state is still Pending, and a later request with a valid token is
  served the same page again.
\<close>

theorem Server_bootstrap_ignores_write_failure:
  assumes "done_marker fs = None" and "peer_conf fs = Some c"
    and "BootstrapToken cfg = [] \<or> req_token rq = BootstrapToken cfg"
    and "BootstrapToken cfg = [] \<or> req_token rq' = BootstrapToken cfg"
    and "req_write rq \<noteq> Written"
  shows "resp_status (fst (Server_bootstrap co cfg fs rq)) = 200
       \<and> resp_body (fst (Server_bootstrap co cfg fs rq))
           = page co (rewriteEndpoint c (EndpointHost cfg) (EndpointPort cfg))
               (base64 co (fst (qr_encode co
                  (rewriteEndpoint c (EndpointHost cfg) (EndpointPort cfg)))))
       \<and> WriteDone \<in> set (snd (snd (Server_bootstrap co cfg fs rq)))
       \<and> (req_write rq = NotCreated \<longrightarrow>
            fst (snd (Server_bootstrap co cfg fs rq)) = fs
            \<and> resp_status (fst (Server_bootstrap co cfg
                  (fst (snd (Server_bootstrap co cfg fs rq))) rq')) = 200
            \<and> resp_body (fst (Server_bootstrap co cfg
                  (fst (snd (Server_bootstrap co cfg fs rq))) rq'))
                = resp_body (fst (Server_bootstrap co cfg fs rq)))"
  using assms
  by (auto simp add: Server_bootstrap_def Let_def split: prod.splits)

theorem Server_bootstrap_ignores_write_failure_witness:
  "done_marker pendingFiles = None
   \<and> peer_conf pendingFiles = Some ''Endpoint = 1.2.3.4:51820''
   \<and> req_token failedWriteRequest = BootstrapToken sampleConfig
   \<and> req_token goodRequest = BootstrapToken sampleConfig
   \<and> req_write failedWriteRequest = NotCreated
   \<and> resp_status (fst (Server_bootstrap sampleCollab sampleConfig pendingFiles failedWriteRequest)) = 200
   \<and> fst (snd (Server_bootstrap sampleCollab sampleConfig pendingFiles failedWriteRequest))
       = pendingFiles
   \<and> resp_status (fst (Server_bootstrap sampleCollab sampleConfig
         (fst (snd (Server_bootstrap sampleCollab sampleConfig pendingFiles failedWriteRequest)))
         goodRequest)) = 200"
proof -
  have h: "done_marker pendingFiles = None"
    "peer_conf pendingFiles = Some ''Endpoint = 1.2.3.4:51820''"
    "BootstrapToken sampleConfig = [] \<or> req_token failedWriteRequest = BootstrapToken sampleConfig"
    "BootstrapToken sampleConfig = [] \<or> req_token goodRequest = BootstrapToken sampleConfig"
    "req_write failedWriteRequest \<noteq> Written"
    by (simp_all add: pendingFiles_def sampleConfig_def failedWriteRequest_def goodRequest_def)
  have e: "req_token failedWriteRequest = BootstrapToken sampleConfig"
    "req_token goodRequest = BootstrapToken sampleConfig"
    "req_write failedWriteRequest = NotCreated"
    by (simp_all add: sampleConfig_def failedWriteRequest_def goodRequest_def)
  from Server_bootstrap_ignores_write_failure [OF h, of sampleCollab] h(1,2) e
  show ?thesis by blast
qed

text \<open>The handler of \<open>main.go\<close> reports the same failure with 500.\<close>

lemma main_bootstrap_write_failure:
  assumes "done_marker fs = None" and "peer_conf fs = Some c"
    and "BootstrapToken cfg = [] \<or> req_token rq = BootstrapToken cfg"
    and "\<not> snd (qr_encode co (rewriteEndpoint c (EndpointHost cfg) (EndpointPort cfg)))"
    and "req_write rq \<noteq> Written"
  shows "resp_status (fst (main_bootstrap co cfg fs rq)) = 500"
  using assms
  by (auto simp add: main_bootstrap_def http_Error_def Let_def split: prod.splits)

section \<open>The keepalive loop: when it ends\<close>

lemma keepaliveTick_stops_iff:
  "fst (keepaliveTick st ti) = None \<longleftrightarrow> stopCondition ti"
  by (simp add: keepaliveTick_def sendPing_def Let_def stopCondition_def not_le)

text \<open>An iteration sends the ping exactly when it does not end the loop; whether the
  ping fails changes nothing but a log line.\<close>

lemma keepaliveTick_ping_iff:
  "Ping \<in> set (snd (keepaliveTick st ti)) \<longleftrightarrow> fst (keepaliveTick st ti) \<noteq> None"
  by (simp add: keepaliveTick_def sendPing_def Let_def)

text \<open>The loop over any number of iterations has ended exactly when one of them met the
  condition of the two \<open>return\<close> statements.\<close>

lemma keepaliveLoop_stops_iff:
  "fst (keepaliveLoop st tis) = None \<longleftrightarrow> (\<exists>ti \<in> set tis. stopCondition ti)"
proof (induction tis arbitrary: st)
  case Nil
  show ?case by simp
next
  case (Cons ti tis)
  obtain r evs where tick: "keepaliveTick st ti = (r, evs)"
    by (cases "keepaliveTick st ti")
  then have r: "r = None \<longleftrightarrow> stopCondition ti"
    using keepaliveTick_stops_iff [of st ti] by simp
  show ?case
  proof (cases r)
    case None
    with tick r show ?thesis by simp
  next
    case (Some st')
    obtain r' evs' where rest: "keepaliveLoop st' tis = (r', evs')"
      by (cases "keepaliveLoop st' tis")
    with Cons.IH [of st'] have "r' = None \<longleftrightarrow> (\<exists>ti \<in> set tis. stopCondition ti)"
      by simp
    with tick r Some rest show ?thesis by simp
  qed
qed

text \<open>
  Claim C4. On an iteration after the startup window whose poll succeeded, the loop
  ends if and only if no peer ever had a handshake or the idle time exceeds
  \<open>maxIdle\<close>; an iteration that ends the loop sends no ping; and an iteration ends the
  loop under no other condition: it is past the startup window, its poll succeeded and
  one of the two conditions holds.
\<close>

theorem keepalive_stops_only_when_idle:
  "(startupWindow < sinceStart ti \<and> \<not> pollErr (poll ti) \<longrightarrow>
      (fst (keepaliveTick st ti) = None
         \<longleftrightarrow> noHandshake (poll ti) \<or> maxIdle < idle (poll ti)))
   \<and> (fst (keepaliveTick st ti) = None \<longrightarrow> Ping \<notin> set (snd (keepaliveTick st ti)))
   \<and> (fst (keepaliveTick st ti) = None \<longrightarrow>
        startupWindow < sinceStart ti \<and> \<not> pollErr (poll ti)
        \<and> (noHandshake (poll ti) \<or> maxIdle < idle (poll ti)))"
  by (simp add: keepaliveTick_def sendPing_def Let_def not_le)

theorem keepalive_stops_only_when_idle_witness:
  "startupWindow < sinceStart idleTick \<and> \<not> pollErr (poll idleTick)
   \<and> maxIdle < idle (poll idleTick)
   \<and> fst (keepaliveTick connectedTracker idleTick) = None
   \<and> Ping \<notin> set (snd (keepaliveTick connectedTracker idleTick))"
proof -
  have h: "startupWindow < sinceStart idleTick" "\<not> pollErr (poll idleTick)"
    "maxIdle < idle (poll idleTick)"
    by (simp_all add: idleTick_def startupWindow_def maxIdle_def)
  from keepalive_stops_only_when_idle [of idleTick connectedTracker] h
  show ?thesis by blast
qed

text \<open>
  Claim C5. On an iteration after the startup window whose poll returns an error, the
  loop goes on and sends the ping, and \<open>connected\<close>, \<open>connectedSince\<close> and \<open>lastIdle\<close>
  keep their values.
\<close>

theorem poll_error_keeps_alive:
  assumes "startupWindow < sinceStart ti" and "pollErr (poll ti)"
  shows "fst (keepaliveTick st ti) = Some st
       \<and> Ping \<in> set (snd (keepaliveTick st ti))"
  using assms by (simp add: keepaliveTick_def sendPing_def)

theorem poll_error_keeps_alive_witness:
  "startupWindow < sinceStart pollErrorTick \<and> pollErr (poll pollErrorTick)
   \<and> fst (keepaliveTick connectedTracker pollErrorTick) = Some connectedTracker
   \<and> Ping \<in> set (snd (keepaliveTick connectedTracker pollErrorTick))"
proof -
  have h: "startupWindow < sinceStart pollErrorTick" "pollErr (poll pollErrorTick)"
    by (simp_all add: pollErrorTick_def startupWindow_def)
  from poll_error_keeps_alive [OF h, of connectedTracker] h
  show ?thesis by blast
qed

section \<open>Endpoint normalisation: what it changes\<close>

text \<open>Splitting and joining at the same separator are inverse to each other, as long
  as no joined piece holds the separator.\<close>

lemma Split_not_Nil: "strings_Split s sep \<noteq> []"
  by (induction s) (auto split: list.splits)

lemma Join_Split: "strings_Join (strings_Split s sep) sep = s"
proof (induction s)
  case Nil
  show ?case by simp
next
  case (Cons c cs)
  obtain piece pieces where sp: "strings_Split cs sep = piece # pieces"
    using Split_not_Nil [of cs sep] by (cases "strings_Split cs sep") auto
  show ?case
  proof (cases "c = sep")
    case True
    with Cons sp show ?thesis by simp
  next
    case False
    with Cons sp show ?thesis by (cases pieces) auto
  qed
qed

lemma Split_no_sep: "l \<in> set (strings_Split s sep) \<Longrightarrow> sep \<notin> set l"
proof (induction s arbitrary: l)
  case Nil
  then show ?case by simp
next
  case (Cons c cs)
  then show ?case
    by (cases "strings_Split cs sep") (auto split: if_splits)
qed

lemma Split_append_no_sep:
  "sep \<notin> set x \<Longrightarrow> strings_Split (x @ s) sep
     = (x @ hd (strings_Split s sep)) # tl (strings_Split s sep)"
proof (induction x)
  case Nil
  then show ?case using Split_not_Nil [of s sep] by simp
next
  case (Cons c x)
  then show ?case by auto
qed

lemma Split_Join:
  "ls \<noteq> [] \<Longrightarrow> \<forall>l \<in> set ls. sep \<notin> set l \<Longrightarrow> strings_Split (strings_Join ls sep) sep = ls"
proof (induction ls sep rule: strings_Join.induct)
  case (1 sep)
  then show ?case by simp
next
  case (2 x sep)
  then show ?case using Split_append_no_sep [of sep x "[]"] by simp
next
  case (3 x y ys sep)
  then have "strings_Split (strings_Join (y # ys) sep) sep = y # ys" by simp
  with 3 show ?case
    using Split_append_no_sep [of sep x "sep # strings_Join (y # ys) sep"] by simp
qed


text \<open>Trimming only removes bytes, so what is cut out of a line holds no newline.\<close>

lemma trimLeftSpace_set: "set (trimLeftSpace s) \<subseteq> set s"
  by (induction s rule: trimLeftSpace.induct) auto

lemma trimRightSpaceRev_set: "set (trimRightSpaceRev s) \<subseteq> set s"
  by (induction s rule: trimRightSpaceRev.induct) auto

lemma TrimSpace_set: "set (strings_TrimSpace s) \<subseteq> set s"
  using trimLeftSpace_set [of s] trimRightSpaceRev_set [of "rev (trimLeftSpace s)"]
  by (auto simp add: strings_TrimSpace_def)

lemma TrimLeft_set: "set (strings_TrimLeft s cutset) \<subseteq> set s"
  by (auto simp add: strings_TrimLeft_def dest: set_dropWhileD)

lemma TrimPrefix_set: "set (strings_TrimPrefix s p) \<subseteq> set s"
  by (auto simp add: strings_TrimPrefix_def dest: in_set_dropD)

lemma lineCurrent_set: "set (lineCurrent line) \<subseteq> set line"
proof -
  have "set (lineCurrent line)
          \<subseteq> set (strings_TrimSpace (strings_TrimPrefix (strings_TrimSpace line) ''Endpoint''))"
    unfolding lineCurrent_def Let_def by (rule TrimLeft_set)
  also have "\<dots> \<subseteq> set (strings_TrimPrefix (strings_TrimSpace line) ''Endpoint'')"
    by (rule TrimSpace_set)
  also have "\<dots> \<subseteq> set (strings_TrimSpace line)"
    by (rule TrimPrefix_set)
  also have "\<dots> \<subseteq> set line"
    by (rule TrimSpace_set)
  finally show ?thesis .
qed

text \<open>The indentation the loop body keeps is the leading run of spaces and tabs.\<close>

lemma lineIndent_takeWhile:
  "lineIndent line = takeWhile (\<lambda>c. c = CHR '' '' \<or> c = tab) line"
proof -
  let ?P = "\<lambda>c. c = CHR '' '' \<or> c = tab"
  have "length (takeWhile ?P line) + length (dropWhile ?P line) = length line"
    by (induction line) auto
  then have "length line - length (dropWhile ?P line) = length (takeWhile ?P line)"
    by arith
  then have "take (length line - length (dropWhile ?P line)) line = takeWhile ?P line"
    using takeWhile_eq_take [of ?P line] by simp
  then show ?thesis
    by (simp add: lineIndent_def strings_TrimLeft_def Let_def)
qed

lemma lineIndent_set: "set (lineIndent line) \<subseteq> set line"
  by (auto simp add: lineIndent_takeWhile dest: set_takeWhileD)

lemma rewriteLine_prefix:
  "rewriteLine line appName port = Some new \<Longrightarrow> prefix (lineIndent line) new"
  by (auto simp add: rewriteLine_def Let_def split: if_splits)

lemma rewriteLine_no_nl:
  assumes "rewriteLine line appName port = Some new"
    and "nl \<notin> set line" "nl \<notin> set appName" "nl \<notin> set port"
  shows "nl \<notin> set new"
proof -
  have i: "nl \<notin> set (lineIndent line)" using lineIndent_set [of line] assms(2) by auto
  have c: "nl \<notin> set (lineCurrent line)" using lineCurrent_set [of line] assms(2) by auto
  then have h: "nl \<notin> set (take n (lineCurrent line))" and d: "nl \<notin> set (drop n (lineCurrent line))" for n
    by (auto dest: in_set_takeD in_set_dropD)
  show ?thesis
    using assms(1,3,4) i h d
    by (auto simp add: rewriteLine_def Let_def nl_def split: if_splits)
qed

text \<open>The loop returns the text unchanged, or the lines joined again with one of them
  replaced: the first that passes the test.\<close>

lemma rewriteLoop_cases:
  "rewriteLoop conf lines appName port i todo = conf
   \<or> (\<exists>k new. k < length todo \<and> isEndpointLine (todo ! k)
         \<and> (\<forall>j<k. \<not> isEndpointLine (todo ! j))
         \<and> rewriteLine (todo ! k) appName port = Some new
         \<and> rewriteLoop conf lines appName port i todo = strings_Join (lines[i + k := new]) nl)"
proof (induction todo arbitrary: i)
  case Nil
  show ?case by simp
next
  case (Cons line todo)
  show ?case
  proof (cases "isEndpointLine line")
    case False
    from Cons.IH [of "Suc i"] show ?thesis
    proof
      assume "rewriteLoop conf lines appName port (Suc i) todo = conf"
      with False show ?thesis by simp
    next
      assume "\<exists>k new. k < length todo \<and> isEndpointLine (todo ! k)
         \<and> (\<forall>j<k. \<not> isEndpointLine (todo ! j))
         \<and> rewriteLine (todo ! k) appName port = Some new
         \<and> rewriteLoop conf lines appName port (Suc i) todo
             = strings_Join (lines[Suc i + k := new]) nl"
      then obtain k new where k: "k < length todo" "isEndpointLine (todo ! k)"
        "\<forall>j<k. \<not> isEndpointLine (todo ! j)" "rewriteLine (todo ! k) appName port = Some new"
        "rewriteLoop conf lines appName port (Suc i) todo
             = strings_Join (lines[Suc i + k := new]) nl" by blast
      have "\<forall>j<Suc k. \<not> isEndpointLine ((line # todo) ! j)"
        using k(3) False by (auto simp add: nth_Cons split: nat.splits)
      with k False have "Suc k < length (line # todo) \<and> isEndpointLine ((line # todo) ! Suc k)
         \<and> (\<forall>j<Suc k. \<not> isEndpointLine ((line # todo) ! j))
         \<and> rewriteLine ((line # todo) ! Suc k) appName port = Some new
         \<and> rewriteLoop conf lines appName port i (line # todo)
             = strings_Join (lines[i + Suc k := new]) nl" by simp
      then show ?thesis by blast
    qed
  next
    case True
    show ?thesis
    proof (cases "rewriteLine line appName port")
      case None
      with True show ?thesis by simp
    next
      case (Some new)
      with True have "0 < length (line # todo) \<and> isEndpointLine ((line # todo) ! 0)
         \<and> (\<forall>j<0. \<not> isEndpointLine ((line # todo) ! j))
         \<and> rewriteLine ((line # todo) ! 0) appName port = Some new
         \<and> rewriteLoop conf lines appName port i (line # todo)
             = strings_Join (lines[i + 0 := new]) nl" by simp
      then show ?thesis by blast
    qed
  qed
qed

lemma rewriteEndpoint_cases:
  "rewriteEndpoint conf appName port = conf
   \<or> (\<exists>i new. i < length (strings_Split conf nl)
         \<and> isEndpointLine (strings_Split conf nl ! i)
         \<and> (\<forall>j<i. \<not> isEndpointLine (strings_Split conf nl ! j))
         \<and> rewriteLine (strings_Split conf nl ! i) appName port = Some new
         \<and> rewriteEndpoint conf appName port
             = strings_Join ((strings_Split conf nl)[i := new]) nl)"
  using rewriteLoop_cases [of conf "strings_Split conf nl" appName port 0 "strings_Split conf nl"]
  by (simp add: rewriteEndpoint_def Let_def)

text \<open>
  Claim C8, as amended. For every text, and every host and port without a newline,
  the lines of the output are the lines of the input, or the lines of the input with
  one of them replaced: the first line whose trimmed form starts with \<open>Endpoint \<close> or
  \<open>Endpoint=\<close>. Every other line is the input line, byte for byte, and the new line
  starts with the leading run of spaces and tabs of the line it replaces.
\<close>

theorem rewriteEndpoint_changes_one_line:
  assumes "nl \<notin> set appName" and "nl \<notin> set port"
  shows "strings_Split (rewriteEndpoint conf appName port) nl = strings_Split conf nl
   \<or> (\<exists>i new. i < length (strings_Split conf nl)
         \<and> isEndpointLine (strings_Split conf nl ! i)
         \<and> (\<forall>j<i. \<not> isEndpointLine (strings_Split conf nl ! j))
         \<and> strings_Split (rewriteEndpoint conf appName port) nl
             = (strings_Split conf nl)[i := new]
         \<and> prefix (takeWhile (\<lambda>c. c = CHR '' '' \<or> c = tab) (strings_Split conf nl ! i)) new)"
proof -
  let ?ls = "strings_Split conf nl"
  from rewriteEndpoint_cases [of conf appName port] show ?thesis
  proof
    assume "rewriteEndpoint conf appName port = conf"
    then show ?thesis by simp
  next
    assume "\<exists>i new. i < length ?ls \<and> isEndpointLine (?ls ! i)
         \<and> (\<forall>j<i. \<not> isEndpointLine (?ls ! j))
         \<and> rewriteLine (?ls ! i) appName port = Some new
         \<and> rewriteEndpoint conf appName port = strings_Join (?ls[i := new]) nl"
    then obtain i new where i: "i < length ?ls" "isEndpointLine (?ls ! i)"
      "\<forall>j<i. \<not> isEndpointLine (?ls ! j)" "rewriteLine (?ls ! i) appName port = Some new"
      "rewriteEndpoint conf appName port = strings_Join (?ls[i := new]) nl" by blast
    have old: "\<forall>l \<in> set ?ls. nl \<notin> set l" using Split_no_sep by blast
    then have "nl \<notin> set (?ls ! i)" using i(1) by simp
    then have new: "nl \<notin> set new" using rewriteLine_no_nl [OF i(4)] assms by simp
    have "\<forall>l \<in> set (?ls[i := new]). nl \<notin> set l"
      using old new by (auto dest: set_update_subset_insert [THEN subsetD])
    moreover have "?ls[i := new] \<noteq> []" using Split_not_Nil [of conf nl] by simp
    ultimately have "strings_Split (strings_Join (?ls[i := new]) nl) nl = ?ls[i := new]"
      by (rule Split_Join [rotated])
    with i(5) have out: "strings_Split (rewriteEndpoint conf appName port) nl = ?ls[i := new]"
      by simp
    have "prefix (takeWhile (\<lambda>c. c = CHR '' '' \<or> c = tab) (?ls ! i)) new"
      using rewriteLine_prefix [OF i(4)] by (simp add: lineIndent_takeWhile)
    with i(1,2,3) out show ?thesis by blast
  qed
qed

theorem rewriteEndpoint_changes_one_line_witness:
  "nl \<notin> set ''myvpn'' \<and> nl \<notin> set ''51820''
   \<and> (strings_Split (rewriteEndpoint ([tab] @ ''Endpoint = 1.2.3.4:51820'' @ [nl] @ ''DNS = 10.0.0.1'')
          ''myvpn'' ''51820'') nl
        = strings_Split ([tab] @ ''Endpoint = 1.2.3.4:51820'' @ [nl] @ ''DNS = 10.0.0.1'') nl
      \<or> (\<exists>i new. i < length (strings_Split ([tab] @ ''Endpoint = 1.2.3.4:51820'' @ [nl] @ ''DNS = 10.0.0.1'') nl)
         \<and> isEndpointLine (strings_Split ([tab] @ ''Endpoint = 1.2.3.4:51820'' @ [nl] @ ''DNS = 10.0.0.1'') nl ! i)
         \<and> (\<forall>j<i. \<not> isEndpointLine (strings_Split ([tab] @ ''Endpoint = 1.2.3.4:51820'' @ [nl] @ ''DNS = 10.0.0.1'') nl ! j))
         \<and> strings_Split (rewriteEndpoint ([tab] @ ''Endpoint = 1.2.3.4:51820'' @ [nl] @ ''DNS = 10.0.0.1'')
              ''myvpn'' ''51820'') nl
             = (strings_Split ([tab] @ ''Endpoint = 1.2.3.4:51820'' @ [nl] @ ''DNS = 10.0.0.1'') nl)[i := new]
         \<and> prefix (takeWhile (\<lambda>c. c = CHR '' '' \<or> c = tab)
              (strings_Split ([tab] @ ''Endpoint = 1.2.3.4:51820'' @ [nl] @ ''DNS = 10.0.0.1'') nl ! i)) new))
   \<and> strings_Split (rewriteEndpoint ([tab] @ ''Endpoint = 1.2.3.4:51820'' @ [nl] @ ''DNS = 10.0.0.1'')
        ''myvpn'' ''51820'') nl
       = [[tab] @ ''Endpoint = myvpn.fly.dev:51820'', ''DNS = 10.0.0.1'']"
proof -
  have h: "nl \<notin> set ''myvpn''" "nl \<notin> set ''51820''"
    by (simp_all add: nl_def)
  have out: "strings_Split (rewriteEndpoint ([tab] @ ''Endpoint = 1.2.3.4:51820'' @ [nl] @ ''DNS = 10.0.0.1'')
        ''myvpn'' ''51820'') nl
       = [[tab] @ ''Endpoint = myvpn.fly.dev:51820'', ''DNS = 10.0.0.1'']"
    by code_simp
  from rewriteEndpoint_changes_one_line [OF h] h out show ?thesis
    by blast
qed

text \<open>
  The claim as first stated, for every host and every leading white space, fails at the
  text of two lines below with the host \<open>a\<newline>b\<close>. The first line starts with a carriage
  return, which trimming removes, so the line is taken for the directive; the new line
  does not start with it. The host holds a newline, so the output has three lines, and
  its second line is not the second line of the input.
\<close>

theorem rewriteEndpoint_one_line_counterexample:
  "strings_Split ([CHR 0x0D] @ ''Endpoint = x'' @ [nl] @ ''B'') nl
     = [[CHR 0x0D] @ ''Endpoint = x'', ''B'']
   \<and> isEndpointLine ([CHR 0x0D] @ ''Endpoint = x'')
   \<and> strings_TrimSpace ([CHR 0x0D] @ ''Endpoint = x'') = ''Endpoint = x''
   \<and> strings_Split (rewriteEndpoint ([CHR 0x0D] @ ''Endpoint = x'' @ [nl] @ ''B'')
        (''a'' @ [nl] @ ''b'') ''1'') nl
     = [''Endpoint = a'', ''b.fly.dev:1'', ''B'']
   \<and> strings_Split (rewriteEndpoint ([CHR 0x0D] @ ''Endpoint = x'' @ [nl] @ ''B'')
        (''a'' @ [nl] @ ''b'') ''1'') nl ! 1
     \<noteq> strings_Split ([CHR 0x0D] @ ''Endpoint = x'' @ [nl] @ ''B'') nl ! 1
   \<and> \<not> prefix [CHR 0x0D]
         (strings_Split (rewriteEndpoint ([CHR 0x0D] @ ''Endpoint = x'' @ [nl] @ ''B'')
            (''a'' @ [nl] @ ''b'') ''1'') nl ! 0)"
  by code_simp

section \<open>Endpoint normalisation: the bracket rule\<close>









end
